theory Spec2Isabelle
  imports Main "HOL-Library.Word"
begin

unbundle bit_operations_syntax

section \<open>C types and the declarations of hardware/lights.h\<close>

text \<open>
  A C \<open>int\<close> and a C \<open>unsigned int\<close> are both 32-bit words; \<open>sint\<close> reads the
  first, \<open>uint\<close> the second. A pointer is a natural number, \<open>0\<close> being \<open>NULL\<close>.
\<close>

type_synonym int32 = "32 word"
type_synonym uint32 = "32 word"
type_synonym ptr = nat

text \<open>\<open>struct light_state_t\<close>: only \<open>color\<close> is read by lights.c.\<close>

record light_state =
  color :: uint32
  flashMode :: int32
  flashOnMS :: int32
  flashOffMS :: int32
  brightnessMode :: int32

text \<open>The three handlers a device's \<open>set_light\<close> pointer can hold, and its \<open>close\<close>.\<close>

datatype set_light_fn = Set_light_backlight | Set_light_buttons | Set_light_notifications

datatype close_fn = Close_lights

text \<open>
  \<open>struct hw_device_t\<close> and \<open>struct light_device_t\<close>, whose first member \<open>common\<close>
  is the former. A function pointer is \<open>None\<close> when it is \<open>NULL\<close>.
\<close>

record hw_device =
  tag :: uint32
  version :: uint32
  module :: ptr
  close :: "close_fn option"

record light_device = hw_device +
  set_light :: "set_light_fn option"

text \<open>
  The macros of the headers that lights.c includes and that are not part of the
  repository are parameters of the model.
\<close>

record hal_header =
  LIGHT_ID_BACKLIGHT :: string
  LIGHT_ID_BUTTONS :: string
  LIGHT_ID_NOTIFICATIONS :: string
  HARDWARE_DEVICE_TAG :: uint32

text \<open>\<open>EINVAL\<close> of errno.h, with its value on Linux.\<close>

definition EINVAL :: int32 where
  "EINVAL = 22"

section \<open>The constants of lights.c\<close>

definition BLN_LIGHT_ON :: int32 where "BLN_LIGHT_ON = 1"
definition BLN_LIGHT_OFF :: int32 where "BLN_LIGHT_OFF = 2"
definition BLN_NOTIFY_ON :: int32 where "BLN_NOTIFY_ON = 1"
definition BLN_NOTIFY_OFF :: int32 where "BLN_NOTIFY_OFF = 0"
definition CM7_ENABLE_BL :: int32 where "CM7_ENABLE_BL = 1"
definition CM7_DISABLE_BL :: int32 where "CM7_DISABLE_BL = 2"

definition LCD_FILE :: string where
  "LCD_FILE = ''/sys/class/backlight/pwm-backlight/brightness''"

definition KEYBOARD_FILE :: string where
  "KEYBOARD_FILE = ''/sys/class/leds/keyboard-backlight/brightness''"

definition BUTTON_FILE :: string where
  "BUTTON_FILE = ''/sys/class/misc/melfas_touchkey/brightness''"

definition NOTIFICATION_FILE :: string where
  "NOTIFICATION_FILE = ''/sys/class/misc/backlightnotification/notification_led''"

definition CM7_NOTIFICATION_FILE :: string where
  "CM7_NOTIFICATION_FILE = ''/sys/class/misc/notification/led''"

section \<open>The process state and the operating system\<close>

text \<open>
  The log: one constructor for each format string of lights.c, carrying its arguments.
\<close>

datatype priority = LOG_VERBOSE | LOG_ERROR

datatype log_msg =
    Msg_write_int string int32
  | Msg_write_int_failed string
  | Msg_notifications_color uint32
  | Msg_enable_bl
  | Msg_disable_bl
  | Msg_close_light
  | Msg_cmd_name string

text \<open>The system calls of \<open>write_int\<close>, each with the path of the file it is about.\<close>

datatype syscall =
    Sys_open string
  | Sys_write string string
  | Sys_close string

fun path_of :: "syscall \<Rightarrow> string" where
  "path_of (Sys_open p) = p"
| "path_of (Sys_write p buf) = p"
| "path_of (Sys_close p) = p"

text \<open>
  What a system call answers: \<open>Ret v\<close> returns \<open>v\<close> and leaves \<open>errno\<close> alone,
  \<open>Fail e\<close> returns \<open>-1\<close> and sets \<open>errno\<close> to \<open>e\<close>. An \<open>os_reply\<close> holds the answers
  to the \<open>open\<close>, the \<open>write\<close> and the \<open>close\<close> of one call of \<open>write_int\<close>.
\<close>

datatype sysret = Ret int32 | Fail int32

record os_reply =
  open_ret :: sysret
  write_ret :: sysret
  close_ret :: sysret

text \<open>
  The state of the process: the globals of lights.c (\<open>already_warned\<close> is the static
  local of \<open>write_int\<close>), \<open>errno\<close>, the heap of allocated devices, the log, the trace of
  system calls, and the operating system as a function \<open>kernel\<close> that answers the
  \<open>clock\<close>-th call of \<open>write_int\<close> on a path. \<open>g_init\<close> tells whether the
  \<open>pthread_once\<close> control has run, \<open>g_lock\<close> whether the mutex is held.
\<close>

record world =
  g_init :: bool
  g_lock :: bool
  g_notification :: light_state
  g_backlight :: int32
  g_buttons :: int32
  already_warned :: int32
  errno :: int32
  heap :: "ptr \<rightharpoonup> light_device"
  brk :: ptr
  heap_avail :: nat
  log :: "(priority \<times> log_msg) list"
  trace :: "syscall list"
  kernel :: "nat \<Rightarrow> string \<Rightarrow> os_reply"
  clock :: nat

definition zero_state :: light_state where
  "zero_state = \<lparr>color = 0, flashMode = 0, flashOnMS = 0, flashOffMS = 0, brightnessMode = 0\<rparr>"

text \<open>
  The process when the module is loaded: the static initialisers of lights.c, an empty
  heap with room for \<open>n\<close> devices, and the operating system \<open>k\<close>.
\<close>

definition boot :: "(nat \<Rightarrow> string \<Rightarrow> os_reply) \<Rightarrow> nat \<Rightarrow> world" where
  "boot k n =
     \<lparr>g_init = False, g_lock = False, g_notification = zero_state,
      g_backlight = 255, g_buttons = 0, already_warned = 0, errno = 0,
      heap = Map.empty, brk = 1, heap_avail = n, log = [], trace = [],
      kernel = k, clock = 0\<rparr>"

definition LOGV :: "log_msg \<Rightarrow> world \<Rightarrow> world" where
  "LOGV m w = w\<lparr>log := log w @ [(LOG_VERBOSE, m)]\<rparr>"

definition LOGE :: "log_msg \<Rightarrow> world \<Rightarrow> world" where
  "LOGE m w = w\<lparr>log := log w @ [(LOG_ERROR, m)]\<rparr>"

text \<open>One system call: its entry in the trace, its return value, its effect on \<open>errno\<close>.\<close>

fun sys :: "syscall \<Rightarrow> sysret \<Rightarrow> world \<Rightarrow> int32 \<times> world" where
  "sys c (Ret v) w = (v, w\<lparr>trace := trace w @ [c]\<rparr>)"
| "sys c (Fail e) w = (- 1, w\<lparr>trace := trace w @ [c], errno := e\<rparr>)"

fun returned :: "sysret \<Rightarrow> int32" where
  "returned (Ret v) = v"
| "returned (Fail e) = - 1"

fun failed :: "sysret \<Rightarrow> bool" where
  "failed (Ret v) = False"
| "failed (Fail e) = True"

text \<open>
  POSIX: a call that succeeds returns a value that is not negative, a call that fails
  sets \<open>errno\<close> to a positive number.
\<close>

fun posix :: "sysret \<Rightarrow> bool" where
  "posix (Ret v) = (0 \<le> sint v)"
| "posix (Fail e) = (0 < sint e)"

definition posix_reply :: "os_reply \<Rightarrow> bool" where
  "posix_reply r = (posix (open_ret r) \<and> posix (write_ret r) \<and> posix (close_ret r))"

text \<open>
  The mutex and the once-control. The model runs one call at a time, so a call that
  locks a held mutex never returns: \<open>None\<close>. What threads that run at the same time
  do to each other is outside the model.
\<close>

definition pthread_mutex_init :: "world \<Rightarrow> world" where
  "pthread_mutex_init w = w\<lparr>g_lock := False\<rparr>"

definition pthread_mutex_lock :: "world \<Rightarrow> world option" where
  "pthread_mutex_lock w = (if g_lock w then None else Some (w\<lparr>g_lock := True\<rparr>))"

definition pthread_mutex_unlock :: "world \<Rightarrow> world" where
  "pthread_mutex_unlock w = w\<lparr>g_lock := False\<rparr>"

text \<open>
  \<open>malloc(sizeof(struct light_device_t))\<close>: \<open>NULL\<close> when the heap is exhausted, a fresh
  address otherwise. \<open>free\<close> of a block that is not allocated is a fault.
\<close>

datatype fault = Null_dereference | Invalid_free

definition malloc :: "world \<Rightarrow> ptr \<times> world" where
  "malloc w =
     (if heap_avail w = 0 then (0, w)
      else (brk w, w\<lparr>brk := Suc (brk w), heap_avail := heap_avail w - 1\<rparr>))"

definition free :: "ptr \<Rightarrow> world \<Rightarrow> fault + world" where
  "free p w =
     (if p = 0 then Inr w
      else if p \<in> dom (heap w)
        then Inr (w\<lparr>heap := (heap w)(p := None), heap_avail := Suc (heap_avail w)\<rparr>)
      else Inl Invalid_free)"

section \<open>lights.c\<close>

subsection \<open>\<open>sprintf(buffer, "%d\n", value)\<close>\<close>

fun dec_digits :: "nat \<Rightarrow> string" where
  "dec_digits n =
     (if n < 10 then [''0123456789'' ! n]
      else dec_digits (n div 10) @ [''0123456789'' ! (n mod 10)])"

declare dec_digits.simps [simp del]

definition sprintf_d_nl :: "int32 \<Rightarrow> string" where
  "sprintf_d_nl val =
     (if sint val < 0 then CHR ''-'' # dec_digits (nat (- sint val))
      else dec_digits (nat (sint val))) @ [CHR 0x0A]"

subsection \<open>Device methods\<close>

definition init_globals :: "world \<Rightarrow> world" where
  "init_globals w = pthread_mutex_init w"

definition pthread_once_init_globals :: "world \<Rightarrow> world" where
  "pthread_once_init_globals w = (if g_init w then w else (init_globals w)\<lparr>g_init := True\<rparr>)"

text \<open>
  \<open>write(fd, buffer, bytes)\<close> is given the \<open>bytes\<close> characters that \<open>sprintf\<close> has
  just produced, which is all of \<open>buffer\<close>. The log macros leave \<open>errno\<close> alone.
\<close>

definition write_int :: "string \<Rightarrow> int32 \<Rightarrow> world \<Rightarrow> int32 \<times> world" where
  "write_int path val w0 =
     (let w1 = LOGV (Msg_write_int path val) w0;
          reply = kernel w1 (clock w1) path;
          (fd, w2) = sys (Sys_open path) (open_ret reply) (w1\<lparr>clock := Suc (clock w1)\<rparr>)
      in if 0 \<le> sint fd then
           (let buffer = sprintf_d_nl val;
                (amt, w3) = sys (Sys_write path buffer) (write_ret reply) w2;
                (closed, w4) = sys (Sys_close path) (close_ret reply) w3
            in (if amt = - 1 then - errno w4 else 0, w4))
         else
           (let w3 = (if already_warned w2 = 0
                      then (LOGE (Msg_write_int_failed path) w2)\<lparr>already_warned := 1\<rparr>
                      else w2)
            in (- errno w3, w3)))"

definition is_lit :: "light_state \<Rightarrow> int32" where
  "is_lit state = color state AND 0xffffffff"

definition rgb_to_brightness :: "light_state \<Rightarrow> int32" where
  "rgb_to_brightness state =
     (let color24 = color state AND 0x00ffffff
      in signed_drop_bit 8
           (77 * (signed_drop_bit 16 color24 AND 0x00ff)
            + 150 * (signed_drop_bit 8 color24 AND 0x00ff)
            + 29 * (color24 AND 0x00ff)))"

definition set_light_backlight :: "ptr \<Rightarrow> light_state \<Rightarrow> world \<Rightarrow> (int32 \<times> world) option" where
  "set_light_backlight dev state w =
     (let brightness = rgb_to_brightness state
      in case pthread_mutex_lock w of
           None \<Rightarrow> None
         | Some w1 \<Rightarrow>
             (let w2 = w1\<lparr>g_backlight := brightness\<rparr>;
                  (err, w3) = write_int LCD_FILE brightness w2;
                  w4 = pthread_mutex_unlock w3
              in Some (err, w4)))"

definition set_light_buttons :: "ptr \<Rightarrow> light_state \<Rightarrow> world \<Rightarrow> (int32 \<times> world) option" where
  "set_light_buttons dev state w =
     (let on = is_lit state
      in case pthread_mutex_lock w of
           None \<Rightarrow> None
         | Some w1 \<Rightarrow>
             (let w2 = w1\<lparr>g_buttons := on\<rparr>;
                  (err, w3) = write_int BUTTON_FILE
                                (if on \<noteq> 0 then BLN_LIGHT_ON else BLN_LIGHT_OFF) w2;
                  w4 = pthread_mutex_unlock w3
              in Some (err, w4)))"

definition set_light_notifications :: "ptr \<Rightarrow> light_state \<Rightarrow> world \<Rightarrow> (int32 \<times> world) option" where
  "set_light_notifications dev state w =
     (case pthread_mutex_lock w of
        None \<Rightarrow> None
      | Some w1 \<Rightarrow>
          (let w2 = w1\<lparr>g_notification := state\<rparr>;
               w3 = LOGE (Msg_notifications_color (color state)) w2;
               (err, w4) = write_int NOTIFICATION_FILE
                             (if is_lit state \<noteq> 0 then BLN_NOTIFY_ON else BLN_NOTIFY_OFF) w3;
               brightness = rgb_to_brightness state;
               (err, w5) =
                 (if brightness + color state = 0 \<or> 100 < sint brightness then
                    (if color state AND 0x00ffffff \<noteq> 0
                     then write_int CM7_NOTIFICATION_FILE CM7_ENABLE_BL (LOGV Msg_enable_bl w4)
                     else write_int CM7_NOTIFICATION_FILE CM7_DISABLE_BL (LOGV Msg_disable_bl w4))
                  else (err, w4));
               w6 = pthread_mutex_unlock w5
           in Some (0, w6)))"

definition close_lights :: "ptr \<Rightarrow> world \<Rightarrow> fault + (int32 \<times> world)" where
  "close_lights dev w =
     (let w1 = LOGV Msg_close_light w
      in if dev \<noteq> 0 then
           (case free dev w1 of Inl f \<Rightarrow> Inl f | Inr w2 \<Rightarrow> Inr (0, w2))
         else Inr (0, w1))"

subsection \<open>Module methods\<close>

text \<open>
  \<open>open_lights\<close> returns its \<open>int\<close> and the pointer that \<open>*device\<close> holds afterwards
  (\<open>device\<close> is what it held before). \<open>memset\<close> on \<open>NULL\<close> is a fault.
\<close>

definition open_lights ::
  "hal_header \<Rightarrow> ptr \<Rightarrow> string \<Rightarrow> ptr \<Rightarrow> world \<Rightarrow> fault + (int32 \<times> ptr \<times> world)" where
  "open_lights hdr modul name device w =
     (let w1 = LOGE (Msg_cmd_name name) w;
          chosen =
            (if name = LIGHT_ID_BACKLIGHT hdr then Some Set_light_backlight
             else if name = LIGHT_ID_BUTTONS hdr then Some Set_light_buttons
             else if name = LIGHT_ID_NOTIFICATIONS hdr then Some Set_light_notifications
             else None)
      in case chosen of
           None \<Rightarrow> Inr (- EINVAL, device, w1)
         | Some handler \<Rightarrow>
             (let w2 = pthread_once_init_globals w1;
                  (dev, w3) = malloc w2
              in if dev = 0 then Inl Null_dereference
                 else
                   (let d0 = \<lparr>tag = 0, version = 0, module = 0, close = None, set_light = None\<rparr>;
                        d1 = d0\<lparr>tag := HARDWARE_DEVICE_TAG hdr, version := 0, module := modul,
                                 close := Some Close_lights, set_light := Some handler\<rparr>
                    in Inr (0, dev, w3\<lparr>heap := (heap w3)(dev \<mapsto> d1)\<rparr>))))"

text \<open>The indirect call \<open>dev->set_light(dev, state)\<close> that the host makes.\<close>

fun call_set_light :: "set_light_fn \<Rightarrow> ptr \<Rightarrow> light_state \<Rightarrow> world \<Rightarrow> (int32 \<times> world) option" where
  "call_set_light Set_light_backlight = set_light_backlight"
| "call_set_light Set_light_buttons = set_light_buttons"
| "call_set_light Set_light_notifications = set_light_notifications"

section \<open>Notions used to state the properties\<close>

text \<open>
  The luma of a colour as the specification words it: the weighted sum of bytes 2, 1
  and 0 of the lower 24 bits, shifted right by 8.
\<close>

definition luma_spec :: "uint32 \<Rightarrow> int" where
  "luma_spec C =
     (let c24 = uint C mod 2 ^ 24;
          R = c24 div 2 ^ 16 mod 256;
          G = c24 div 2 ^ 8 mod 256;
          B = c24 mod 256
      in (77 * R + 150 * G + 29 * B) div 256)"

text \<open>A sequence of calls of \<open>write_int\<close>, with the value each one returns.\<close>

fun write_ints :: "(string \<times> int32) list \<Rightarrow> world \<Rightarrow> int32 list \<times> world" where
  "write_ints [] w = ([], w)"
| "write_ints ((path, val) # calls) w =
     (let (r, w1) = write_int path val w;
          (rs, w2) = write_ints calls w1
      in (r # rs, w2))"

text \<open>The warnings of \<open>write_int\<close> in the log.\<close>

fun is_open_warning :: "priority \<times> log_msg \<Rightarrow> bool" where
  "is_open_warning (pr, Msg_write_int_failed p) = True"
| "is_open_warning (pr, m) = False"

definition open_warnings :: "world \<Rightarrow> (priority \<times> log_msg) list" where
  "open_warnings w = filter is_open_warning (log w)"

text \<open>
  Two operating systems: one where every call succeeds (\<open>open\<close> returns descriptor 3,
  \<open>write\<close> the two bytes it was given), one where every \<open>open\<close> fails with
  \<open>ENOENT\<close>, which is 2.
\<close>

definition healthy_kernel :: "nat \<Rightarrow> string \<Rightarrow> os_reply" where
  "healthy_kernel n p = \<lparr>open_ret = Ret 3, write_ret = Ret 2, close_ret = Ret 0\<rparr>"

definition broken_kernel :: "nat \<Rightarrow> string \<Rightarrow> os_reply" where
  "broken_kernel n p = \<lparr>open_ret = Fail 2, write_ret = Fail 9, close_ret = Fail 9\<rparr>"

text \<open>A hardware/lights.h, and a light state of one colour.\<close>

definition android_header :: hal_header where
  "android_header =
     \<lparr>LIGHT_ID_BACKLIGHT = ''backlight'', LIGHT_ID_BUTTONS = ''buttons'',
      LIGHT_ID_NOTIFICATIONS = ''notifications'', HARDWARE_DEVICE_TAG = 0x48574454\<rparr>"

definition solid :: "uint32 \<Rightarrow> light_state" where
  "solid c = zero_state\<lparr>color := c\<rparr>"

section \<open>Words as integers\<close>

lemma uint_and_mask_mod: "uint ((w::32 word) AND mask n) = uint w mod 2 ^ n"
proof -
  have "uint (w AND mask n) = uint (take_bit n w)"
    by (simp only: take_bit_eq_mask)
  also have "\<dots> = take_bit n (uint w)"
    by (rule unsigned_take_bit_eq)
  also have "\<dots> = uint w mod 2 ^ n"
    by (rule take_bit_eq_mod)
  finally show ?thesis .
qed

lemma uint_and_ff: "uint ((w::32 word) AND 0xff) = uint w mod 256"
proof -
  have "(0xff :: 32 word) = mask 8" by (simp add: mask_eq_exp_minus_1)
  then show ?thesis using uint_and_mask_mod [of w 8] by simp
qed

lemma uint_and_ffffff: "uint ((w::32 word) AND 0xffffff) = uint w mod 16777216"
proof -
  have "(0xffffff :: 32 word) = mask 24" by (simp add: mask_eq_exp_minus_1)
  then show ?thesis using uint_and_mask_mod [of w 24] by simp
qed

lemma and_ffffffff: "(w::32 word) AND 0xffffffff = w"
proof -
  have "(0xffffffff :: 32 word) = - 1" by simp
  then show ?thesis by (simp only: word_and_max)
qed

lemma and_ffffff_idem: "((w::32 word) AND 0xffffff) AND 0xffffff = w AND 0xffffff"
  by (simp only: and.assoc and.idem)

lemma sint_small:
  assumes "uint (w::32 word) < 2147483648"
  shows "sint w = uint w"
proof -
  have "sint w = signed_take_bit 31 (uint w)"
    by (simp add: sint_uint)
  also have "\<dots> = uint w"
  proof (rule signed_take_bit_int_eq_self)
    have "0 \<le> uint w" by simp
    moreover have "- (2 ^ 31) \<le> (0::int)" by simp
    ultimately show "- (2 ^ 31) \<le> uint w" by (rule order_trans [rotated])
    show "uint w < 2 ^ 31" using assms by simp
  qed
  finally show ?thesis .
qed

lemma uint_of_nonneg_sint:
  assumes "0 \<le> sint (w::32 word)"
  shows "uint w = sint w"
proof -
  have less: "sint w < 2147483648" using sint_less [of w] by simp
  have "uint w = take_bit 32 (sint w)"
    by (simp add: uint_sint)
  also have "\<dots> = sint w"
  proof (rule take_bit_int_eq_self)
    show "0 \<le> sint w" by (rule assms)
    show "sint w < 2 ^ 32" using less by simp
  qed
  finally show ?thesis .
qed

text \<open>On an \<open>int\<close> that is not negative, \<open>>>\<close> divides.\<close>

lemma uint_signed_drop_bit_small:
  assumes "uint (w::32 word) < 2147483648"
  shows "uint (signed_drop_bit n w) = uint w div 2 ^ n"
proof -
  have s: "sint (signed_drop_bit n w) = uint w div 2 ^ n"
    by (simp add: sint_signed_drop_bit_eq sint_small [OF assms] drop_bit_eq_div)
  then have "0 \<le> sint (signed_drop_bit n w)"
    by (simp add: pos_imp_zdiv_nonneg_iff)
  then show ?thesis
    using s uint_of_nonneg_sint by simp
qed

lemma uint_scale:
  assumes "uint (x::32 word) < 256" and "uint (k::32 word) \<le> 150"
  shows "uint (k * x) = uint k * uint x"
proof -
  have "0 \<le> uint k * uint x" by simp
  moreover have "uint k * uint x \<le> 150 * 255"
    using assms by (intro mult_mono) simp_all
  ultimately have "uint k * uint x mod 2 ^ 32 = uint k * uint x"
    by (intro mod_pos_pos_trivial) simp_all
  then show ?thesis by (simp add: uint_word_ariths)
qed

lemma uint_add_small:
  assumes "uint (x::32 word) + uint (y::32 word) < 2 ^ 32"
  shows "uint (x + y) = uint x + uint y"
proof -
  have "uint x + uint y < 2 ^ LENGTH(32)" using assms by simp
  then show ?thesis by (rule uint_add_lem [THEN iffD1])
qed

lemma sint_minus_pos:
  assumes "0 < sint (e::32 word)"
  shows "sint (- e) = - sint e"
proof -
  have less: "sint e < 2147483648" using sint_less [of e] by simp
  have "sint (- e) = signed_take_bit 31 (- sint e)"
    by (simp add: sint_word_ariths)
  also have "\<dots> = - sint e"
  proof (rule signed_take_bit_int_eq_self)
    show "- (2 ^ 31) \<le> - sint e" using less by simp
    have "- sint e < 0" using assms by simp
    also have "(0::int) < 2 ^ 31" by simp
    finally show "- sint e < 2 ^ 31" .
  qed
  finally show ?thesis .
qed

section \<open>The colour codec\<close>

lemma is_lit_color: "is_lit s = color s"
  by (simp only: is_lit_def and_ffffffff)

lemma uint_rgb_to_brightness: "uint (rgb_to_brightness s) = luma_spec (color s)"
proof -
  define cw where "cw = color s AND 0x00ffffff"
  define c24 where "c24 = uint (color s) mod 16777216"
  define rw where "rw = signed_drop_bit 16 cw AND 0xff"
  define gw where "gw = signed_drop_bit 8 cw AND 0xff"
  define bw where "bw = cw AND 0xff"
  have cw: "uint cw = c24"
    by (simp add: cw_def c24_def uint_and_ffffff)
  have c24: "0 \<le> c24" "c24 < 16777216"
    by (simp_all add: c24_def)
  then have small: "uint cw < 2147483648" using cw by simp
  have r: "uint rw = c24 div 2 ^ 16 mod 256"
    by (simp only: rw_def uint_and_ff uint_signed_drop_bit_small [OF small] cw)
  have g: "uint gw = c24 div 2 ^ 8 mod 256"
    by (simp only: gw_def uint_and_ff uint_signed_drop_bit_small [OF small] cw)
  have b: "uint bw = c24 mod 256"
    by (simp only: bw_def uint_and_ff cw)
  have rb: "0 \<le> uint rw" "uint rw < 256" and gb: "0 \<le> uint gw" "uint gw < 256"
    and bb: "0 \<le> uint bw" "uint bw < 256"
    by (simp_all add: r g b)
  have r77: "uint (77 * rw) = 77 * uint rw"
    using uint_scale [of rw 77] rb by simp
  have g150: "uint (150 * gw) = 150 * uint gw"
    using uint_scale [of gw 150] gb by simp
  have b29: "uint (29 * bw) = 29 * uint bw"
    using uint_scale [of bw 29] bb by simp
  have s1: "uint (77 * rw + 150 * gw) = 77 * uint rw + 150 * uint gw"
    using rb gb by (subst uint_add_small) (simp_all add: r77 g150)
  have s2: "uint (77 * rw + 150 * gw + 29 * bw) = 77 * uint rw + 150 * uint gw + 29 * uint bw"
    using rb gb bb by (subst uint_add_small) (simp_all add: s1 b29)
  have "uint (77 * rw + 150 * gw + 29 * bw) < 2147483648"
    using rb gb bb by (simp add: s2)
  then have "uint (signed_drop_bit 8 (77 * rw + 150 * gw + 29 * bw))
      = (77 * uint rw + 150 * uint gw + 29 * uint bw) div 2 ^ 8"
    by (simp only: uint_signed_drop_bit_small s2)
  moreover have "rgb_to_brightness s = signed_drop_bit 8 (77 * rw + 150 * gw + 29 * bw)"
    by (simp add: rgb_to_brightness_def Let_def rw_def gw_def bw_def cw_def)
  ultimately have "uint (rgb_to_brightness s)
      = (77 * (c24 div 2 ^ 16 mod 256) + 150 * (c24 div 2 ^ 8 mod 256) + 29 * (c24 mod 256)) div 2 ^ 8"
    by (simp only: r g b)
  moreover have "luma_spec (color s)
      = (77 * (c24 div 2 ^ 16 mod 256) + 150 * (c24 div 2 ^ 8 mod 256) + 29 * (c24 mod 256)) div 2 ^ 8"
    unfolding luma_spec_def Let_def c24_def by simp
  ultimately show ?thesis by (rule trans [OF _ sym])
qed

lemma luma_spec_bounds: "0 \<le> luma_spec C" "luma_spec C \<le> 255"
proof -
  define c24 where "c24 = uint C mod 2 ^ 24"
  define R where "R = c24 div 2 ^ 16 mod 256"
  define G where "G = c24 div 2 ^ 8 mod 256"
  define B where "B = c24 mod 256"
  have bounds: "0 \<le> R" "R \<le> 255" "0 \<le> G" "G \<le> 255" "0 \<le> B" "B \<le> 255"
    by (simp_all add: R_def G_def B_def)
  have eq: "luma_spec C = (77 * R + 150 * G + 29 * B) div 256"
    by (simp add: luma_spec_def Let_def R_def G_def B_def c24_def)
  show "0 \<le> luma_spec C" using bounds by (simp add: eq pos_imp_zdiv_nonneg_iff)
  have "77 * R + 150 * G + 29 * B \<le> 65280" using bounds by simp
  then have "(77 * R + 150 * G + 29 * B) div 256 \<le> 65280 div 256"
    by (rule zdiv_mono1) simp
  then show "luma_spec C \<le> 255" by (simp add: eq)
qed

lemma sint_rgb_to_brightness: "sint (rgb_to_brightness s) = luma_spec (color s)"
proof -
  have "uint (rgb_to_brightness s) < 2147483648"
    using luma_spec_bounds(2) [of "color s"] by (simp add: uint_rgb_to_brightness)
  then show ?thesis
    by (simp add: sint_small uint_rgb_to_brightness)
qed

lemma rgb_to_brightness_masked:
  "rgb_to_brightness (s\<lparr>color := color s AND 0x00ffffff\<rparr>) = rgb_to_brightness s"
proof -
  have "color (s\<lparr>color := color s AND 0x00ffffff\<rparr>) AND 0x00ffffff = color s AND 0x00ffffff"
    by (simp add: and_ffffff_idem)
  then show ?thesis by (simp only: rgb_to_brightness_def)
qed

text \<open>
  The only byte \<open>t\<close> with \<open>(57885 + 29 * t) >> 8 = 256 - t\<close> is 27: the one colour
  above \<open>0xFFFFFF00\<close> whose luma is what it lacks to \<open>2 ^ 32\<close>.
\<close>

lemma luma_wrap:
  assumes b: "1 \<le> b" "b \<le> 255" and l: "luma_spec C = b" and c: "uint C = 4294967296 - b"
  shows "b = 229"
proof -
  define t where "t = 256 - b"
  have t: "1 \<le> t" "t \<le> 255" using b by (simp_all add: t_def)
  have "uint C = 16777216 * 255 + (16777216 - b)" using c by simp
  then have "uint C mod 16777216 = 16777216 - b"
    using b by (intro int_mod_pos_eq [where q = 255]) simp_all
  then have c24: "uint C mod 2 ^ 24 = 16777216 - b" by simp
  have "16777216 - b = 65536 * 255 + (65280 + t)" by (simp add: t_def)
  then have R: "(16777216 - b) div 65536 = 255"
    using t by (intro int_div_pos_eq [where r = "65280 + t"]) simp_all
  have e: "16777216 - b = 256 * 65535 + t" by (simp add: t_def)
  have G: "(16777216 - b) div 256 = 65535"
    using t e by (intro int_div_pos_eq [where r = t]) simp_all
  have B: "(16777216 - b) mod 256 = t"
    using t e by (intro int_mod_pos_eq [where q = 65535]) simp_all
  have "luma_spec C = (57885 + 29 * t) div 256"
    unfolding luma_spec_def Let_def c24 by (simp add: R G B)
  then have d: "(57885 + 29 * t) div 256 = 256 - t" using l by (simp add: t_def)
  define r where "r = (57885 + 29 * t) mod 256"
  have "57885 + 29 * t = 256 * ((57885 + 29 * t) div 256) + r"
    by (simp add: r_def)
  then have "57885 + 29 * t = 256 * (256 - t) + r" by (simp only: d)
  then have "285 * t = 7651 + r" by (simp add: algebra_simps)
  moreover have "0 \<le> r" "r < 256" by (simp_all add: r_def)
  ultimately have "t = 27" by linarith
  then show ?thesis by (simp add: t_def)
qed

lemma brightness_plus_color_zero:
  assumes "rgb_to_brightness s + color s = 0"
  shows "color s = 0 \<or> color s = 0xFFFFFF1B"
proof -
  define b where "b = uint (rgb_to_brightness s)"
  define c where "c = uint (color s)"
  have b: "0 \<le> b" "b \<le> 255" and l: "luma_spec (color s) = b"
    using luma_spec_bounds [of "color s"] by (simp_all add: b_def uint_rgb_to_brightness)
  have c: "0 \<le> c" "c < 4294967296"
    using uint_lt2p [of "color s"] by (simp_all add: c_def)
  have "uint (rgb_to_brightness s + color s) = 0" using assms by simp
  then have m: "(b + c) mod 4294967296 = 0"
    by (simp add: uint_word_ariths b_def c_def)
  show ?thesis
  proof (cases "b + c < 4294967296")
    case True
    then have "(b + c) mod 4294967296 = b + c"
      using b c by (intro mod_pos_pos_trivial) simp_all
    then have "c = 0" using m b c by linarith
    then have "color s = 0" by (simp add: c_def uint_0_iff)
    then show ?thesis ..
  next
    case False
    have "b + c = 4294967296 * 1 + (b + c - 4294967296)" by simp
    then have "(b + c) mod 4294967296 = b + c - 4294967296"
      using False b c by (intro int_mod_pos_eq [where q = 1]) simp_all
    then have sum: "c = 4294967296 - b" using m by linarith
    then have "1 \<le> b" using c by linarith
    then have "b = 229"
      using b l sum by (intro luma_wrap [of b "color s"]) (simp_all add: c_def)
    then have "uint (color s) = uint (0xFFFFFF1B :: 32 word)"
      using sum by (simp add: c_def)
    then have "color s = 0xFFFFFF1B" by (simp only: word_uint_eq_iff)
    then show ?thesis ..
  qed
qed

lemma rgb_to_brightness_black:
  assumes "color s = 0"
  shows "rgb_to_brightness s = 0"
  using assms by (simp add: rgb_to_brightness_def)

lemma rgb_to_brightness_1b:
  assumes "color s = 0xFFFFFF1B"
  shows "rgb_to_brightness s = 229"
  using assms by (simp add: rgb_to_brightness_def)

section \<open>The writer\<close>

lemma sys_eq:
  "sys c r w = (returned r,
     w\<lparr>trace := trace w @ [c], errno := (case r of Ret v \<Rightarrow> errno w | Fail e \<Rightarrow> e)\<rparr>)"
  by (cases r) simp_all

lemma fst_sys: "fst (sys c r w) = returned r"
  by (simp add: sys_eq)

lemma snd_sys_fields:
  "g_init (snd (sys c r w)) = g_init w"
  "g_lock (snd (sys c r w)) = g_lock w"
  "g_notification (snd (sys c r w)) = g_notification w"
  "g_backlight (snd (sys c r w)) = g_backlight w"
  "g_buttons (snd (sys c r w)) = g_buttons w"
  "already_warned (snd (sys c r w)) = already_warned w"
  "heap (snd (sys c r w)) = heap w"
  "brk (snd (sys c r w)) = brk w"
  "heap_avail (snd (sys c r w)) = heap_avail w"
  "log (snd (sys c r w)) = log w"
  "kernel (snd (sys c r w)) = kernel w"
  "clock (snd (sys c r w)) = clock w"
  "trace (snd (sys c r w)) = trace w @ [c]"
  by (simp_all add: sys_eq)

text \<open>What \<open>write_int\<close> leaves alone, and what it adds to the trace.\<close>

lemma write_int_globals:
  "g_init (snd (write_int p v w)) = g_init w"
  "g_lock (snd (write_int p v w)) = g_lock w"
  "g_notification (snd (write_int p v w)) = g_notification w"
  "g_backlight (snd (write_int p v w)) = g_backlight w"
  "g_buttons (snd (write_int p v w)) = g_buttons w"
  "heap (snd (write_int p v w)) = heap w"
  "brk (snd (write_int p v w)) = brk w"
  "heap_avail (snd (write_int p v w)) = heap_avail w"
  "kernel (snd (write_int p v w)) = kernel w"
  "clock (snd (write_int p v w)) = Suc (clock w)"
  by (simp_all add: write_int_def Let_def split_def LOGV_def LOGE_def snd_sys_fields)

lemma write_int_trace:
  "trace (snd (write_int p v w)) =
     trace w @ Sys_open p #
       (if 0 \<le> sint (returned (open_ret (kernel w (clock w) p)))
        then [Sys_write p (sprintf_d_nl v), Sys_close p] else [])"
  by (simp add: write_int_def Let_def split_def LOGV_def LOGE_def snd_sys_fields fst_sys)

lemma write_int_paths:
  "\<exists>cs. trace (snd (write_int p v w)) = trace w @ cs \<and> (\<forall>c\<in>set cs. path_of c = p)"
  by (auto simp: write_int_trace)

text \<open>What \<open>write_int\<close> returns.\<close>

lemma write_int_open_failed:
  assumes "open_ret (kernel w (clock w) p) = Fail e"
  shows "fst (write_int p v w) = - e"
  using assms by (simp add: write_int_def Let_def split_def LOGV_def LOGE_def)

lemma write_int_write_failed:
  assumes "open_ret (kernel w (clock w) p) = Ret fd" "0 \<le> sint fd"
    and "write_ret (kernel w (clock w) p) = Fail e"
  shows "fst (write_int p v w) =
    - (case close_ret (kernel w (clock w) p) of Ret x \<Rightarrow> e | Fail e' \<Rightarrow> e')"
  using assms
  by (simp add: write_int_def Let_def split_def LOGV_def LOGE_def sys_eq split: sysret.splits)

lemma write_int_written:
  assumes "open_ret (kernel w (clock w) p) = Ret fd" "0 \<le> sint fd"
    and "write_ret (kernel w (clock w) p) = Ret amt" "0 \<le> sint amt"
  shows "fst (write_int p v w) = 0"
proof -
  have "amt \<noteq> - 1" using assms(4) by auto
  then show ?thesis
    using assms by (simp add: write_int_def Let_def split_def LOGV_def LOGE_def sys_eq)
qed

lemma sint_minus_errno:
  assumes "0 < sint (e::32 word)"
  shows "sint (- e) < 0"
  using assms by (simp add: sint_minus_pos)

lemma write_int_result:
  assumes "posix_reply (kernel w (clock w) p)"
  shows "if failed (open_ret (kernel w (clock w) p)) \<or> failed (write_ret (kernel w (clock w) p))
         then sint (fst (write_int p v w)) < 0 else fst (write_int p v w) = 0"
proof (cases "open_ret (kernel w (clock w) p)")
  case (Fail e)
  then have "0 < sint e" using assms by (simp add: posix_reply_def)
  then show ?thesis
    using Fail by (simp add: write_int_open_failed [OF Fail] sint_minus_errno)
next
  case (Ret fd)
  then have fd: "0 \<le> sint fd" using assms by (simp add: posix_reply_def)
  show ?thesis
  proof (cases "write_ret (kernel w (clock w) p)")
    case inner: (Ret amt)
    then have "0 \<le> sint amt" using assms by (simp add: posix_reply_def)
    then show ?thesis
      using Ret inner by (simp add: write_int_written [OF Ret fd inner])
  next
    case inner: (Fail e)
    then have e: "0 < sint e" using assms by (simp add: posix_reply_def)
    show ?thesis
    proof (cases "close_ret (kernel w (clock w) p)")
      case (Ret x)
      then show ?thesis
        using \<open>open_ret (kernel w (clock w) p) = Ret fd\<close> inner e
        by (simp add: write_int_write_failed [OF \<open>open_ret (kernel w (clock w) p) = Ret fd\<close> fd inner]
            sint_minus_errno)
    next
      case (Fail e')
      then have "0 < sint e'" using assms by (simp add: posix_reply_def)
      then show ?thesis
        using \<open>open_ret (kernel w (clock w) p) = Ret fd\<close> inner Fail
        by (simp add: write_int_write_failed [OF \<open>open_ret (kernel w (clock w) p) = Ret fd\<close> fd inner]
            sint_minus_errno)
    qed
  qed
qed

text \<open>
  The warning budget: the warnings in the log, plus one while \<open>already_warned\<close> is
  still zero. No call of \<open>write_int\<close> makes it grow.
\<close>

lemma write_int_budget:
  "length (open_warnings (snd (write_int p v w)))
     + (if already_warned (snd (write_int p v w)) = 0 then 1 else 0)
   \<le> length (open_warnings w) + (if already_warned w = 0 then 1 else 0)"
  by (simp add: write_int_def Let_def split_def LOGV_def LOGE_def open_warnings_def
      snd_sys_fields)

lemma write_ints_Cons:
  "write_ints ((path, val) # calls) w =
     (fst (write_int path val w) # fst (write_ints calls (snd (write_int path val w))),
      snd (write_ints calls (snd (write_int path val w))))"
  by (simp add: split_def Let_def)

lemma write_ints_budget:
  "length (open_warnings (snd (write_ints calls w)))
     + (if already_warned (snd (write_ints calls w)) = 0 then 1 else 0)
   \<le> length (open_warnings w) + (if already_warned w = 0 then 1 else (0::nat))"
proof (induction calls arbitrary: w)
  case Nil
  show ?case by simp
next
  case (Cons call calls)
  obtain path val where call: "call = (path, val)" by (cases call)
  have "snd (write_ints (call # calls) w) = snd (write_ints calls (snd (write_int path val w)))"
    by (simp only: call write_ints_Cons snd_conv)
  then show ?case
    using Cons.IH [of "snd (write_int path val w)"] write_int_budget [of path val w]
    by (simp only: order_trans)
qed

lemma write_ints_open_failed:
  assumes "i < length calls"
    and "open_ret (kernel w (clock w + i) (fst (calls ! i))) = Fail e"
  shows "fst (write_ints calls w) ! i = - e"
  using assms
proof (induction calls arbitrary: w i)
  case Nil
  then show ?case by simp
next
  case (Cons call calls)
  obtain path val where call: "call = (path, val)" by (cases call)
  show ?case
  proof (cases i)
    case 0
    then have "open_ret (kernel w (clock w) path) = Fail e"
      using Cons.prems(2) by (simp add: call)
    then show ?thesis
      using 0 by (simp only: call write_ints_Cons fst_conv nth_Cons_0 write_int_open_failed)
  next
    case (Suc j)
    let ?w1 = "snd (write_int path val w)"
    have "j < length calls" using Cons.prems(1) Suc by simp
    moreover have "open_ret (kernel ?w1 (clock ?w1 + j) (fst (calls ! j))) = Fail e"
      using Cons.prems(2) Suc by (simp add: write_int_globals)
    ultimately have "fst (write_ints calls ?w1) ! j = - e"
      by (rule Cons.IH)
    then show ?thesis
      using Suc by (simp only: call write_ints_Cons fst_conv nth_Cons_Suc)
  qed
qed

section \<open>The handlers, called with the mutex free\<close>

lemma set_light_backlight_unlocked:
  assumes "\<not> g_lock w"
  shows "set_light_backlight dev s w =
    Some (fst (write_int LCD_FILE (rgb_to_brightness s)
                 (w\<lparr>g_lock := True, g_backlight := rgb_to_brightness s\<rparr>)),
          (snd (write_int LCD_FILE (rgb_to_brightness s)
                 (w\<lparr>g_lock := True, g_backlight := rgb_to_brightness s\<rparr>)))\<lparr>g_lock := False\<rparr>)"
  using assms
  by (simp add: set_light_backlight_def pthread_mutex_lock_def pthread_mutex_unlock_def
      Let_def split_def)

lemma set_light_buttons_unlocked:
  assumes "\<not> g_lock w"
  shows "set_light_buttons dev s w =
    Some (fst (write_int BUTTON_FILE (if is_lit s \<noteq> 0 then BLN_LIGHT_ON else BLN_LIGHT_OFF)
                 (w\<lparr>g_lock := True, g_buttons := is_lit s\<rparr>)),
          (snd (write_int BUTTON_FILE (if is_lit s \<noteq> 0 then BLN_LIGHT_ON else BLN_LIGHT_OFF)
                 (w\<lparr>g_lock := True, g_buttons := is_lit s\<rparr>)))\<lparr>g_lock := False\<rparr>)"
  using assms
  by (simp add: set_light_buttons_def pthread_mutex_lock_def pthread_mutex_unlock_def
      Let_def split_def)

lemma set_light_notifications_unlocked:
  assumes "\<not> g_lock w"
  shows "\<exists>w'. set_light_notifications dev s w = Some (0, w')"
  using assms
  by (simp add: set_light_notifications_def pthread_mutex_lock_def Let_def split_def)

lemma sprintf_codes:
  "sprintf_d_nl BLN_LIGHT_ON = [CHR ''1'', CHR 0x0A]"
  "sprintf_d_nl BLN_LIGHT_OFF = [CHR ''2'', CHR 0x0A]"
  by (simp_all add: sprintf_d_nl_def BLN_LIGHT_ON_def BLN_LIGHT_OFF_def dec_digits.simps)

section \<open>The claims about the codec\<close>

text \<open>
  C1, as the specification states it: for every light state whose 32-bit colour is not
  zero, \<open>brightness + color\<close>, computed in 32-bit arithmetic with
  \<open>brightness = rgb_to_brightness state\<close>, is not zero. This fails at the colour
  \<open>0xFFFFFF1B\<close>: its luma is 229 and \<open>229 + 0xFFFFFF1B\<close> wraps around to 0.
\<close>

theorem C1_brightness_plus_color_counterexample:
  "\<not> (color (solid 0xFFFFFF1B) \<noteq> 0
      \<longrightarrow> rgb_to_brightness (solid 0xFFFFFF1B) + color (solid 0xFFFFFF1B) \<noteq> 0)"
proof -
  have c: "color (solid 0xFFFFFF1B) = 0xFFFFFF1B" by (simp add: solid_def)
  show ?thesis by (simp add: rgb_to_brightness_1b [OF c]) (simp add: c)
qed

text \<open>
  C1, amended: \<open>brightness + color\<close> is zero in 32-bit arithmetic exactly when the colour
  is \<open>0\<close> or \<open>0xFFFFFF1B\<close>; for every other colour the first trigger of the heuristic
  does not hold.
\<close>

theorem C1_brightness_plus_color_zero_iff:
  "rgb_to_brightness s + color s = 0 \<longleftrightarrow> color s = 0 \<or> color s = 0xFFFFFF1B"
proof
  assume "rgb_to_brightness s + color s = 0"
  then show "color s = 0 \<or> color s = 0xFFFFFF1B"
    by (rule brightness_plus_color_zero)
next
  assume "color s = 0 \<or> color s = 0xFFFFFF1B"
  then show "rgb_to_brightness s + color s = 0"
  proof
    assume z: "color s = 0"
    show ?thesis by (simp add: rgb_to_brightness_black [OF z]) (simp add: z)
  next
    assume c: "color s = 0xFFFFFF1B"
    show ?thesis by (simp add: rgb_to_brightness_1b [OF c]) (simp add: c)
  qed
qed

text \<open>
  C2: \<open>is_lit\<close> returns a nonzero value if and only if the full 32-bit colour is nonzero;
  it returns the colour itself, so the top byte counts: a colour with only its top byte
  set is lit.
\<close>

theorem C2_is_lit_iff_color_nonzero:
  "(is_lit s \<noteq> 0 \<longleftrightarrow> color s \<noteq> 0) \<and> is_lit s = color s \<and> is_lit (solid 0xFF000000) \<noteq> 0"
  by (simp add: is_lit_color solid_def)

text \<open>
  C3: \<open>rgb_to_brightness\<close> is \<open>(77 * R + 150 * G + 29 * B) >> 8\<close> on bytes 2, 1 and 0 of
  the lower 24 bits of the colour, it lies between 0 and 255, and masking the top byte of
  the colour off beforehand does not change it.
\<close>

theorem C3_rgb_to_brightness_luma:
  "sint (rgb_to_brightness s) = luma_spec (color s)
   \<and> 0 \<le> sint (rgb_to_brightness s) \<and> sint (rgb_to_brightness s) \<le> 255
   \<and> rgb_to_brightness (s\<lparr>color := color s AND 0x00ffffff\<rparr>) = rgb_to_brightness s"
  using luma_spec_bounds [of "color s"]
  by (simp only: sint_rgb_to_brightness rgb_to_brightness_masked simp_thms)

section \<open>The claims about the handlers, the writer and the factory\<close>

text \<open>
  C4, as the specification states it: after \<open>set_light_buttons\<close> the shared button field
  is a two-valued flag, 1 when the state is lit and 0 otherwise. This fails at the colour
  \<open>2\<close>: the state is lit and the field holds 2.
\<close>

theorem C4_buttons_flag_counterexample:
  "map_option (g_buttons \<circ> snd) (set_light_buttons 0 (solid 2) (boot healthy_kernel 0))
     \<noteq> Some (if is_lit (solid 2) \<noteq> 0 then 1 else 0)"
proof -
  have "\<not> g_lock (boot healthy_kernel 0)" by (simp add: boot_def)
  then show ?thesis
    by (simp add: set_light_buttons_unlocked write_int_globals is_lit_color solid_def)
qed

text \<open>
  C4, amended: called with the mutex free, \<open>set_light_buttons\<close> returns, and the shared
  button field then holds the \<open>int\<close> that \<open>is_lit\<close> returned, which is the 32-bit colour
  itself: nonzero exactly when the state is lit, but not reduced to 0 or 1. The call opens
  the button control file and, when the descriptor is valid, writes the line \<open>1\<close> when
  the state is lit and the line \<open>2\<close> otherwise, then closes it; \<open>BLN_LIGHT_ON\<close> is 1
  and \<open>BLN_LIGHT_OFF\<close> is 2.
\<close>

theorem C4_set_light_buttons_records_is_lit:
  assumes "\<not> g_lock w"
  shows "\<exists>err w'. set_light_buttons dev s w = Some (err, w')
    \<and> g_buttons w' = is_lit s \<and> g_buttons w' = color s
    \<and> (g_buttons w' \<noteq> 0 \<longleftrightarrow> is_lit s \<noteq> 0)
    \<and> trace w' = trace w @ Sys_open BUTTON_FILE #
        (if 0 \<le> sint (returned (open_ret (kernel w (clock w) BUTTON_FILE)))
         then [Sys_write BUTTON_FILE
                 (if is_lit s \<noteq> 0 then [CHR ''1'', CHR 0x0A] else [CHR ''2'', CHR 0x0A]),
               Sys_close BUTTON_FILE]
         else [])
    \<and> BLN_LIGHT_ON = 1 \<and> BLN_LIGHT_OFF = 2"
  by (simp add: set_light_buttons_unlocked [OF assms] write_int_globals write_int_trace
      sprintf_codes is_lit_color)
    (simp add: BLN_LIGHT_ON_def BLN_LIGHT_OFF_def)

theorem C4_set_light_buttons_witness:
  "\<not> g_lock (boot healthy_kernel 0)
   \<and> (\<exists>err w'. set_light_buttons 0 (solid 0xFFFFFFFF) (boot healthy_kernel 0) = Some (err, w')
        \<and> g_buttons w' = 0xFFFFFFFF
        \<and> trace w' = [Sys_open BUTTON_FILE, Sys_write BUTTON_FILE [CHR ''1'', CHR 0x0A],
                       Sys_close BUTTON_FILE])"
proof -
  have free: "\<not> g_lock (boot healthy_kernel 0)" by (simp add: boot_def)
  have c: "color (solid 0xFFFFFFFF) = 0xFFFFFFFF" by (simp add: solid_def)
  have k: "open_ret (kernel (boot healthy_kernel 0) (clock (boot healthy_kernel 0)) BUTTON_FILE)
      = Ret 3"
    by (simp add: boot_def healthy_kernel_def)
  have t: "trace (boot healthy_kernel 0) = []" by (simp add: boot_def)
  from C4_set_light_buttons_records_is_lit [OF free, of 0 "solid 0xFFFFFFFF"]
  obtain err w' where
    "set_light_buttons 0 (solid 0xFFFFFFFF) (boot healthy_kernel 0) = Some (err, w')"
    "g_buttons w' = 0xFFFFFFFF"
    "trace w' = [Sys_open BUTTON_FILE, Sys_write BUTTON_FILE [CHR ''1'', CHR 0x0A],
                 Sys_close BUTTON_FILE]"
    by (auto simp: c k t is_lit_color)
  then show ?thesis using free by blast
qed

text \<open>
  C5: \<open>set_light_notifications\<close> returns 0 for every light state and whatever the
  operating system answers to its writes; the one way not to return 0 is not to return,
  which happens only when the mutex is held at the call and never freed.
\<close>

theorem C5_set_light_notifications_returns_0:
  "map_option fst (set_light_notifications dev s w) = (if g_lock w then None else Some 0)"
proof (cases "g_lock w")
  case True
  then show ?thesis
    by (simp add: set_light_notifications_def pthread_mutex_lock_def)
next
  case False
  then obtain w' where "set_light_notifications dev s w = Some (0, w')"
    using set_light_notifications_unlocked by blast
  then show ?thesis using False by simp
qed

theorem C5_set_light_notifications_witness:
  "fst (write_int NOTIFICATION_FILE BLN_NOTIFY_ON (boot broken_kernel 0)) = - 2
   \<and> map_option fst (set_light_notifications 0 (solid 0xFFFFFFFF) (boot broken_kernel 0)) = Some 0"
proof -
  have free: "\<not> g_lock (boot broken_kernel 0)" by (simp add: boot_def)
  have "open_ret (kernel (boot broken_kernel 0) (clock (boot broken_kernel 0)) NOTIFICATION_FILE)
      = Fail 2"
    by (simp add: boot_def broken_kernel_def)
  then have "fst (write_int NOTIFICATION_FILE BLN_NOTIFY_ON (boot broken_kernel 0)) = - 2"
    by (rule write_int_open_failed)
  then show ?thesis
    using free C5_set_light_notifications_returns_0 [of 0 "solid 0xFFFFFFFF" "boot broken_kernel 0"]
    by simp
qed

text \<open>
  C6: called with the mutex free on an operating system that follows POSIX,
  \<open>set_light_backlight\<close> returns what its one call of \<open>write_int\<close> on the backlight
  control file returns: a negative number when the \<open>open\<close> or the \<open>write\<close> fails, 0
  otherwise. In both cases the shared backlight level is then the requested brightness.
\<close>

theorem C6_set_light_backlight_result:
  assumes "\<not> g_lock w" and "posix_reply (kernel w (clock w) LCD_FILE)"
  shows "\<exists>err w'. set_light_backlight dev s w = Some (err, w')
    \<and> err = fst (write_int LCD_FILE (rgb_to_brightness s)
                   (w\<lparr>g_lock := True, g_backlight := rgb_to_brightness s\<rparr>))
    \<and> clock w' = Suc (clock w)
    \<and> (if failed (open_ret (kernel w (clock w) LCD_FILE))
          \<or> failed (write_ret (kernel w (clock w) LCD_FILE))
        then sint err < 0 else err = 0)
    \<and> g_backlight w' = rgb_to_brightness s"
proof -
  let ?w2 = "w\<lparr>g_lock := True, g_backlight := rgb_to_brightness s\<rparr>"
  have "posix_reply (kernel ?w2 (clock ?w2) LCD_FILE)" using assms(2) by simp
  then have "if failed (open_ret (kernel w (clock w) LCD_FILE))
          \<or> failed (write_ret (kernel w (clock w) LCD_FILE))
        then sint (fst (write_int LCD_FILE (rgb_to_brightness s) ?w2)) < 0
        else fst (write_int LCD_FILE (rgb_to_brightness s) ?w2) = 0"
    using write_int_result [of ?w2 LCD_FILE "rgb_to_brightness s"] by simp
  then show ?thesis
    by (simp add: set_light_backlight_unlocked [OF assms(1)] write_int_globals)
qed

theorem C6_set_light_backlight_witness:
  "\<not> g_lock (boot broken_kernel 0)
   \<and> posix_reply (kernel (boot broken_kernel 0) (clock (boot broken_kernel 0)) LCD_FILE)
   \<and> (\<exists>err w'. set_light_backlight 0 (solid 0x00808080) (boot broken_kernel 0) = Some (err, w')
        \<and> sint err < 0 \<and> g_backlight w' = 128)"
proof -
  have free: "\<not> g_lock (boot broken_kernel 0)" by (simp add: boot_def)
  have px: "posix_reply (kernel (boot broken_kernel 0) (clock (boot broken_kernel 0)) LCD_FILE)"
    by (simp add: boot_def broken_kernel_def posix_reply_def)
  have f: "failed (open_ret (kernel (boot broken_kernel 0) (clock (boot broken_kernel 0)) LCD_FILE))"
    by (simp add: boot_def broken_kernel_def)
  have b: "rgb_to_brightness (solid 0x00808080) = 128"
    by (simp add: rgb_to_brightness_def solid_def)
  from C6_set_light_backlight_result [OF free px, of 0 "solid 0x00808080"]
  obtain err w' where
    "set_light_backlight 0 (solid 0x00808080) (boot broken_kernel 0) = Some (err, w')"
    "sint err < 0" "g_backlight w' = 128"
    using f by (auto simp: b)
  then show ?thesis using free px by blast
qed

text \<open>
  C7: for a name that is none of the three light identifiers, \<open>open_lights\<close> returns
  \<open>-EINVAL\<close>, which is -22, leaves \<open>*device\<close> as it was, allocates nothing, and changes
  nothing of the process but the log, where it adds the name.
\<close>

theorem C7_open_lights_unknown_name:
  assumes "name \<noteq> LIGHT_ID_BACKLIGHT hdr" and "name \<noteq> LIGHT_ID_BUTTONS hdr"
    and "name \<noteq> LIGHT_ID_NOTIFICATIONS hdr"
  shows "\<exists>w'. open_lights hdr modul name device w = Inr (- EINVAL, device, w')
    \<and> sint (- EINVAL) = - 22
    \<and> heap w' = heap w \<and> brk w' = brk w \<and> heap_avail w' = heap_avail w
    \<and> g_init w' = g_init w \<and> g_lock w' = g_lock w
    \<and> g_backlight w' = g_backlight w \<and> g_buttons w' = g_buttons w
    \<and> g_notification w' = g_notification w
    \<and> already_warned w' = already_warned w \<and> trace w' = trace w
    \<and> w' = w\<lparr>log := log w @ [(LOG_ERROR, Msg_cmd_name name)]\<rparr>"
  using assms by (simp add: open_lights_def LOGE_def EINVAL_def)

theorem C7_open_lights_witness:
  "''keyboard'' \<noteq> LIGHT_ID_BACKLIGHT android_header
   \<and> ''keyboard'' \<noteq> LIGHT_ID_BUTTONS android_header
   \<and> ''keyboard'' \<noteq> LIGHT_ID_NOTIFICATIONS android_header
   \<and> (\<exists>w'. open_lights android_header 7 ''keyboard'' 0 (boot healthy_kernel 1)
              = Inr (- 22, 0, w')
        \<and> heap w' = Map.empty \<and> heap_avail w' = 1)"
proof -
  have n: "''keyboard'' \<noteq> LIGHT_ID_BACKLIGHT android_header"
    "''keyboard'' \<noteq> LIGHT_ID_BUTTONS android_header"
    "''keyboard'' \<noteq> LIGHT_ID_NOTIFICATIONS android_header"
    by (simp_all add: android_header_def)
  from C7_open_lights_unknown_name [OF n, of 7 0 "boot healthy_kernel 1"]
  obtain w' where
    "open_lights android_header 7 ''keyboard'' 0 (boot healthy_kernel 1) = Inr (- 22, 0, w')"
    "heap w' = Map.empty" "heap_avail w' = 1"
    by (auto simp: EINVAL_def boot_def)
  then show ?thesis using n by blast
qed

text \<open>
  C8: in a process that starts from the static initialisers and runs any sequence of
  calls of \<open>write_int\<close>, on any paths and against any operating system, the log holds at
  most one warning in the end; and every call of the sequence whose \<open>open\<close> fails with a
  positive \<open>errno\<close> \<open>e\<close> returns \<open>-e\<close>, a negative number, warned or not.
\<close>

theorem C8_write_int_warns_once:
  "length (open_warnings (snd (write_ints calls (boot k n)))) \<le> 1
   \<and> (\<forall>i e. i < length calls \<and> open_ret (k i (fst (calls ! i))) = Fail e \<and> 0 < sint e
        \<longrightarrow> fst (write_ints calls (boot k n)) ! i = - e
            \<and> sint (fst (write_ints calls (boot k n)) ! i) < 0)"
proof
  have "length (open_warnings (boot k n)) + (if already_warned (boot k n) = 0 then 1 else 0)
      = (1::nat)"
    by (simp add: boot_def open_warnings_def)
  then show "length (open_warnings (snd (write_ints calls (boot k n)))) \<le> 1"
    using write_ints_budget [of calls "boot k n"] by linarith
next
  show "\<forall>i e. i < length calls \<and> open_ret (k i (fst (calls ! i))) = Fail e \<and> 0 < sint e
        \<longrightarrow> fst (write_ints calls (boot k n)) ! i = - e
            \<and> sint (fst (write_ints calls (boot k n)) ! i) < 0"
  proof (intro allI impI, elim conjE)
    fix i e
    assume i: "i < length calls" and f: "open_ret (k i (fst (calls ! i))) = Fail e"
      and e: "0 < sint e"
    have "open_ret (kernel (boot k n) (clock (boot k n) + i) (fst (calls ! i))) = Fail e"
      using f by (simp add: boot_def)
    then have "fst (write_ints calls (boot k n)) ! i = - e"
      using i by (intro write_ints_open_failed)
    then show "fst (write_ints calls (boot k n)) ! i = - e
        \<and> sint (fst (write_ints calls (boot k n)) ! i) < 0"
      using e by (simp add: sint_minus_errno)
  qed
qed

theorem C8_write_int_warns_once_witness:
  "length (open_warnings (snd (write_ints [(LCD_FILE, 128), (BUTTON_FILE, 1)]
      (boot broken_kernel 0)))) \<le> 1
   \<and> fst (write_ints [(LCD_FILE, 128), (BUTTON_FILE, 1)] (boot broken_kernel 0)) ! 0 = - 2
   \<and> fst (write_ints [(LCD_FILE, 128), (BUTTON_FILE, 1)] (boot broken_kernel 0)) ! 1 = - 2"
proof -
  let ?calls = "[(LCD_FILE, 128), (BUTTON_FILE, 1)]"
  note c8 = C8_write_int_warns_once [of ?calls broken_kernel 0]
  have two: "(0::32 word) < 2 \<and> 0 < sint (2::32 word)" by simp
  have "open_ret (broken_kernel 0 (fst (?calls ! 0))) = Fail 2"
    "open_ret (broken_kernel 1 (fst (?calls ! 1))) = Fail 2"
    by (simp_all add: broken_kernel_def)
  then have "fst (write_ints ?calls (boot broken_kernel 0)) ! 0 = - 2"
    "fst (write_ints ?calls (boot broken_kernel 0)) ! 1 = - 2"
    using c8 two by auto
  then show ?thesis using c8 by blast
qed

text \<open>
  C10: called with the mutex free, \<open>set_light_backlight\<close> makes system calls on the
  backlight control file only, which is none of the four other paths, and leaves the
  shared button field and the stored notification state as they were; \<open>set_light_buttons\<close>
  leaves the shared backlight level and the stored notification state as they were.
\<close>

theorem C10_backlight_and_buttons_frame:
  assumes "\<not> g_lock w"
  shows "(\<exists>err w' cs. set_light_backlight dev s w = Some (err, w')
      \<and> trace w' = trace w @ cs \<and> (\<forall>c\<in>set cs. path_of c = LCD_FILE)
      \<and> g_buttons w' = g_buttons w \<and> g_notification w' = g_notification w)
    \<and> LCD_FILE \<notin> {KEYBOARD_FILE, BUTTON_FILE, NOTIFICATION_FILE, CM7_NOTIFICATION_FILE}
    \<and> (\<exists>err w'. set_light_buttons dev s w = Some (err, w')
      \<and> g_backlight w' = g_backlight w \<and> g_notification w' = g_notification w)"
proof (intro conjI)
  let ?w2 = "w\<lparr>g_lock := True, g_backlight := rgb_to_brightness s\<rparr>"
  obtain cs where cs: "trace (snd (write_int LCD_FILE (rgb_to_brightness s) ?w2)) = trace ?w2 @ cs"
    "\<forall>c\<in>set cs. path_of c = LCD_FILE"
    using write_int_paths [of LCD_FILE "rgb_to_brightness s" ?w2] by blast
  then show "\<exists>err w' cs. set_light_backlight dev s w = Some (err, w')
      \<and> trace w' = trace w @ cs \<and> (\<forall>c\<in>set cs. path_of c = LCD_FILE)
      \<and> g_buttons w' = g_buttons w \<and> g_notification w' = g_notification w"
    by (simp add: set_light_backlight_unlocked [OF assms] write_int_globals)
next
  show "LCD_FILE \<notin> {KEYBOARD_FILE, BUTTON_FILE, NOTIFICATION_FILE, CM7_NOTIFICATION_FILE}"
    by (simp add: LCD_FILE_def KEYBOARD_FILE_def BUTTON_FILE_def NOTIFICATION_FILE_def
        CM7_NOTIFICATION_FILE_def)
next
  show "\<exists>err w'. set_light_buttons dev s w = Some (err, w')
      \<and> g_backlight w' = g_backlight w \<and> g_notification w' = g_notification w"
    by (simp add: set_light_buttons_unlocked [OF assms] write_int_globals)
qed

theorem C10_backlight_and_buttons_frame_witness:
  "\<not> g_lock (boot healthy_kernel 0)
   \<and> (\<exists>err w' cs. set_light_backlight 0 (solid 0x00808080) (boot healthy_kernel 0) = Some (err, w')
        \<and> trace w' = cs \<and> list_all (\<lambda>c. path_of c = LCD_FILE) cs
        \<and> g_buttons w' = 0 \<and> g_notification w' = zero_state)
   \<and> (\<exists>err w'. set_light_buttons 0 (solid 0x00808080) (boot healthy_kernel 0) = Some (err, w')
        \<and> g_backlight w' = 255 \<and> g_notification w' = zero_state)"
proof -
  have free: "\<not> g_lock (boot healthy_kernel 0)" by (simp add: boot_def)
  have init: "trace (boot healthy_kernel 0) = []" "g_buttons (boot healthy_kernel 0) = 0"
    "g_backlight (boot healthy_kernel 0) = 255" "g_notification (boot healthy_kernel 0) = zero_state"
    by (simp_all add: boot_def)
  from C10_backlight_and_buttons_frame [OF free, of 0 "solid 0x00808080"] show ?thesis
    using free by (simp add: init list_all_iff)
qed

end
